theory Spec2Isabelle
  imports Main
begin

section \<open>The OAuth2 authorization-code flow of cumulusci/oauth/client.py\<close>

text \<open>
  The development embeds \<^verbatim>\<open>src/cumulusci/oauth/client.py\<close>: the token exchange
  \<^verbatim>\<open>OAuth2Client.get_access_token\<close>, the callback handler
  \<^verbatim>\<open>OAuthCallbackHandler.do_GET\<close>, the watchdog thread \<^verbatim>\<open>HTTPDTimeout\<close> and the
  orchestration \<^verbatim>\<open>OAuth2Client.auth_code_flow\<close>.

  Strings are byte strings: a Python \<^verbatim>\<open>str\<close> is represented by its UTF-8 encoding, so
  \<^verbatim>\<open>http_body.encode("utf-8")\<close> is the identity.
\<close>

subsection \<open>Exceptions, responses, requests\<close>

datatype exn =
    KeyError string
  | IndexError
  | AttributeError string
  | ExternalError string

text \<open>
  \<^verbatim>\<open>ExternalError\<close> stands for an exception raised by code that is not in the file:
  \<^verbatim>\<open>requests.post\<close> when no response is received, \<^verbatim>\<open>HTTPServer(...)\<close> when the port
  cannot be bound, \<^verbatim>\<open>validate_response\<close> and \<^verbatim>\<open>safe_json_from_response\<close>.
\<close>

record response =
  status_code :: int
  content :: string
  encoding :: "string option"

text \<open>
  A \<^verbatim>\<open>requests.Response\<close>, as far as the file and its callers look at it: the status
  code, the raw bytes of the body, and the charset named by the answer (\<^verbatim>\<open>None\<close> for a
  response made with \<^verbatim>\<open>requests.Response()\<close>). The property \<^verbatim>\<open>response.text\<close> belongs to
  the library: it decodes the body with that charset (or a guessed one) and replaces what
  cannot be decoded. It is a parameter \<open>rtext\<close> of the handler; as every \<^verbatim>\<open>str\<close> its value
  is represented by its UTF-8 encoding, which is what \<^verbatim>\<open>.encode("utf-8")\<close> writes.
\<close>

definition OK :: int where
  "OK = 200"

definition BAD_REQUEST :: int where
  "BAD_REQUEST = 400"

text \<open>
  \<^verbatim>\<open>OAuthClientInfo\<close> is declared in \<^verbatim>\<open>cumulusci/oauth/client_info.py\<close>, which is not part
  of the sources at hand. The record holds the three attributes the file reads and the
  values of the two methods it calls, \<^verbatim>\<open>get_auth_uri()\<close> and \<^verbatim>\<open>get_token_uri()\<close>.
\<close>

record client_info =
  client_id :: string
  client_secret :: string
  callback_url :: string
  auth_uri :: string
  token_uri :: string

text \<open>
  A value of the \<^verbatim>\<open>data\<close> dictionary handed to \<^verbatim>\<open>requests.post\<close>: Python does not fix
  the type of \<^verbatim>\<open>auth_code\<close>, so a form value is a string or a list of strings.
\<close>

datatype form_value = Str string | StrList "string list"

record request =
  url :: string
  headers :: "(string \<times> string) list"
  data :: "(string \<times> form_value) list"

definition HTTP_HEADERS :: "(string \<times> string) list" where
  "HTTP_HEADERS = [(''Content-Type'', ''application/x-www-form-urlencoded'')]"

text \<open>
  \<^verbatim>\<open>requests.post\<close> as the environment: it raises (no response received) or gives the
  response of the token endpoint.
\<close>

type_synonym network = "request \<Rightarrow> exn + response"

text \<open>What a handler does to the outside, in program order.\<close>

datatype callee = ServerShutdown

datatype effect =
    Post request
  | SendResponse int
  | SendHeader string string
  | EndHeaders
  | WfileWrite string
  | StartThread callee

subsection \<open>get_access_token\<close>

definition token_data :: "client_info \<Rightarrow> form_value \<Rightarrow> (string \<times> form_value) list" where
  "token_data ci auth_code =
     [(''client_id'', Str (client_id ci)),
      (''client_secret'', Str (client_secret ci)),
      (''grant_type'', Str ''authorization_code''),
      (''redirect_uri'', Str (callback_url ci)),
      (''code'', auth_code)]"

definition token_request :: "client_info \<Rightarrow> form_value \<Rightarrow> request" where
  "token_request ci auth_code =
     \<lparr>url = token_uri ci, headers = HTTP_HEADERS, data = token_data ci auth_code\<rparr>"

definition get_access_token ::
  "network \<Rightarrow> client_info \<Rightarrow> form_value \<Rightarrow> (exn + response) \<times> effect list" where
  "get_access_token net ci auth_code =
     (let rq = token_request ci auth_code in (net rq, [Post rq]))"

subsection \<open>Query parsing\<close>

text \<open>
  \<^verbatim>\<open>urllib.parse.parse_qs\<close> groups the name/value pairs that \<^verbatim>\<open>parse_qsl\<close> cuts out of
  the query string: a new name starts a one-element list, a known name has the value
  appended. The pairs themselves (splitting at \<^verbatim>\<open>&\<close> and \<^verbatim>\<open>=\<close>, percent-decoding) are the
  input of the model. With \<^verbatim>\<open>keep_blank_values=True\<close> no pair is dropped.
\<close>

fun parse_qs_loop ::
  "(string \<times> string) list \<Rightarrow> (string \<rightharpoonup> string list) \<Rightarrow> (string \<rightharpoonup> string list)" where
  "parse_qs_loop [] parsed_result = parsed_result"
| "parse_qs_loop ((name, v) # pairs) parsed_result =
     parse_qs_loop pairs
       (case parsed_result name of
          Some vs \<Rightarrow> parsed_result(name \<mapsto> vs @ [v])
        | None \<Rightarrow> parsed_result(name \<mapsto> [v]))"

definition parse_qs :: "(string \<times> string) list \<Rightarrow> (string \<rightharpoonup> string list)" where
  "parse_qs pairs = parse_qs_loop pairs Map.empty"

definition getitem :: "(string \<rightharpoonup> 'v) \<Rightarrow> string \<Rightarrow> exn + 'v" where
  "getitem d k = (case d k of None \<Rightarrow> Inl (KeyError k) | Some v \<Rightarrow> Inr v)"

definition item0 :: "'a list \<Rightarrow> exn + 'a" where
  "item0 xs = (case xs of [] \<Rightarrow> Inl IndexError | x # _ \<Rightarrow> Inr x)"

subsection \<open>The callback handler\<close>

text \<open>
  A callback GET: the name/value pairs of its query string, and the index that
  \<^verbatim>\<open>random.choice\<close> draws while the request is handled.
\<close>

record http_get =
  query :: "(string \<times> string) list"
  pick :: nat

definition emojis :: "string list" where
  "emojis =
     [[CHR 0xF0, CHR 0x9F, CHR 0x8E, CHR 0x89],
      [CHR 0xF0, CHR 0x9F, CHR 0x91, CHR 0x8D],
      [CHR 0xF0, CHR 0x9F, CHR 0x91, CHR 0x8D, CHR 0xF0, CHR 0x9F, CHR 0x8F, CHR 0xBF],
      [CHR 0xF0, CHR 0x9F, CHR 0xA5, CHR 0xB3],
      [CHR 0xF0, CHR 0x9F, CHR 0x8E, CHR 0x88]]"

definition random_choice :: "nat \<Rightarrow> string list \<Rightarrow> string" where
  "random_choice k xs = xs ! (k mod length xs)"

definition success_body :: "string \<Rightarrow> string" where
  "success_body emoji =
     ''<html>'' @ [CHR 0x0A] @
     ''            <h1 style='' @ [CHR 0x22] @ ''font-size: large'' @ [CHR 0x22] @ ''>''
       @ emoji @ ''</h1>'' @ [CHR 0x0A] @
     ''            <p>Congratulations! Your authentication succeeded.</p>''"

definition error_body :: "string \<Rightarrow> string \<Rightarrow> string" where
  "error_body e d = ''error: '' @ e @ [CHR 0x0A] @ ''error description: '' @ d"

text \<open>
  The first half of \<^verbatim>\<open>do_GET\<close>, up to \<^verbatim>\<open>self.send_response\<close>: it computes the
  status and the body of the page, and on the \<^verbatim>\<open>else\<close> branch runs the token exchange
  and stores its response in \<^verbatim>\<open>parent.response\<close>. \<^verbatim>\<open>Inl\<close> is an exception leaving the
  handler, with the value of \<^verbatim>\<open>parent.response\<close> and the effects at that moment.
\<close>

definition do_GET_page ::
  "network \<Rightarrow> (response \<Rightarrow> string) \<Rightarrow> client_info \<Rightarrow> http_get \<Rightarrow> response option \<Rightarrow>
     (exn \<times> response option \<times> effect list) + (int \<times> string \<times> response option \<times> effect list)" where
  "do_GET_page net rtext ci rq presp =
     (let args = parse_qs (query rq) in
      if args ''error'' \<noteq> None then
        (case getitem args ''error'' of
           Inl x \<Rightarrow> Inl (x, presp, [])
         | Inr es \<Rightarrow>
        (case item0 es of
           Inl x \<Rightarrow> Inl (x, presp, [])
         | Inr e \<Rightarrow>
        (case getitem args ''error_description'' of
           Inl x \<Rightarrow> Inl (x, presp, [])
         | Inr ds \<Rightarrow>
        (case item0 ds of
           Inl x \<Rightarrow> Inl (x, presp, [])
         | Inr d \<Rightarrow> Inr (BAD_REQUEST, error_body e d, presp, [])))))
      else
        (let http_body = success_body (random_choice (pick rq) emojis) in
         case getitem args ''code'' of
           Inl x \<Rightarrow> Inl (x, presp, [])
         | Inr auth_code \<Rightarrow>
        (case get_access_token net ci (StrList auth_code) of
           (Inl x, f) \<Rightarrow> Inl (x, presp, f)
         | (Inr r, f) \<Rightarrow>
             if status_code r \<ge> BAD_REQUEST
             then Inr (status_code r, rtext r, Some r, f)
             else Inr (OK, http_body, Some r, f))))"

text \<open>
  \<^verbatim>\<open>do_GET\<close>: the exception that leaves the handler (if any), the new value of
  \<^verbatim>\<open>parent.response\<close>, and the effects in program order. The page is written, a missing
  \<^verbatim>\<open>parent.response\<close> is replaced by a response made of the page, and a thread that
  calls \<^verbatim>\<open>server.shutdown\<close> is started. Writing to the connection is taken to succeed.
\<close>

definition do_GET ::
  "network \<Rightarrow> (response \<Rightarrow> string) \<Rightarrow> client_info \<Rightarrow> http_get \<Rightarrow> response option \<Rightarrow>
     exn option \<times> response option \<times> effect list" where
  "do_GET net rtext ci rq presp =
     (case do_GET_page net rtext ci rq presp of
        Inl (x, p, f) \<Rightarrow> (Some x, p, f)
      | Inr (http_status, http_body, p, f) \<Rightarrow>
          (None,
           (if p = None
            then Some \<lparr>status_code = http_status, content = http_body, encoding = None\<rparr>
            else p),
           f @ [SendResponse http_status,
                 SendHeader ''Content-Type'' ''text/html; charset=utf-8'',
                 EndHeaders,
                 WfileWrite http_body,
                 StartThread ServerShutdown]))"

definition posts :: "effect list \<Rightarrow> request list" where
  "posts f = concat (map (\<lambda>e. case e of Post r \<Rightarrow> [r] | _ \<Rightarrow> []) f)"

definition statuses :: "effect list \<Rightarrow> int list" where
  "statuses f = concat (map (\<lambda>e. case e of SendResponse s \<Rightarrow> [s] | _ \<Rightarrow> []) f)"

definition bodies :: "effect list \<Rightarrow> string list" where
  "bodies f = concat (map (\<lambda>e. case e of WfileWrite b \<Rightarrow> [b] | _ \<Rightarrow> []) f)"

subsection \<open>The end of auth_code_flow\<close>

text \<open>
  What the flow needs from outside the file: the client configuration, the timeout
  (\<^verbatim>\<open>httpd_timeout\<close>, in clock ticks), whether \<^verbatim>\<open>HTTPServer(...)\<close> can bind the port, the
  token endpoint behind \<^verbatim>\<open>requests.post\<close>, the property \<^verbatim>\<open>response.text\<close>, and the two
  functions
  \<^verbatim>\<open>client_info.validate_response\<close> (it raises or returns nothing) and
  \<^verbatim>\<open>safe_json_from_response\<close> (it raises or returns the parsed body), both declared in
  files that are not at hand and therefore parameters. The payload type is left open.
\<close>

record 'j params =
  client :: client_info
  httpd_timeout :: nat
  bind_ok :: bool
  requests_post :: network
  response_text :: "response \<Rightarrow> string"
  validate_response :: "response option \<Rightarrow> exn option"
  safe_json_from_response :: "response option \<Rightarrow> exn + 'j"

text \<open>
  The last two lines of \<^verbatim>\<open>auth_code_flow\<close>:
  \<^verbatim>\<open>self.client_info.validate_response(self.response)\<close> and
  \<^verbatim>\<open>return safe_json_from_response(self.response)\<close>.
\<close>

definition auth_code_flow_return :: "'j params \<Rightarrow> response option \<Rightarrow> exn + 'j" where
  "auth_code_flow_return P resp =
     (case validate_response P resp of
        Some x \<Rightarrow> Inl x
      | None \<Rightarrow> safe_json_from_response P resp)"

subsection \<open>Threads and the shared state\<close>

text \<open>
  The flow runs three kinds of threads: the caller of \<^verbatim>\<open>auth_code_flow\<close>, which serves
  requests inside \<^verbatim>\<open>serve_forever\<close>; the \<^verbatim>\<open>HTTPDTimeout\<close> thread; and one thread per
  finished handler, started by \<^verbatim>\<open>threading.Thread(target=self.server.shutdown).start()\<close>.
  Each thread is a program counter and a step function on the shared state; a schedule
  (a list of actions) says which thread moves next, when the clock advances and when a
  callback GET reaches the listener. A step that is not enabled leaves the state as it is.

  The clock counts tenths of a second, so \<^verbatim>\<open>time.sleep(1)\<close> lasts at least \<open>second\<close>
  ticks, and the scheduler may let any thread wait longer.

  The standard library is modelled as documented for \<^verbatim>\<open>socketserver.BaseServer\<close>:
  \<^verbatim>\<open>serve_forever\<close> clears the event \<^verbatim>\<open>__is_shut_down\<close>, then handles one request after
  the other while the flag \<^verbatim>\<open>__shutdown_request\<close> is not set, and on leaving resets the
  flag and sets the event; \<^verbatim>\<open>shutdown\<close> sets the flag and waits for the event; an
  exception that leaves a handler is reported by the server, which goes on serving.
\<close>

definition second :: nat where
  "second = 10"

datatype 'j main_pc =
    M_Init
  | M_Serve
  | M_Handling http_get
  | M_Quit
  | M_Done "exn + 'j"

datatype guard_pc =
    G_NotStarted
  | G_Init
  | G_LoopCond
  | G_Sleeping
  | G_FinalCheck
  | G_Call
  | G_Wait
  | G_Done
  | G_Raised

record 'j world =
  now :: nat
  pending :: "http_get list"
  arrivals :: "(nat \<times> http_get) list"
  completed :: "http_get list"
  parent_response :: "response option"
  effects :: "effect list"
  browser :: "string list"
  shutdown_request :: bool
  is_shut_down :: bool
  mpc :: "'j main_pc"
  gpc :: guard_pc
  guard_httpd :: bool
  target_time :: nat
  wake_at :: nat
  spawned :: nat
  waiting :: nat
  guard_calls :: nat
  worker_calls :: nat
  quit_time :: "nat option"
  guard_call_time :: "nat option"

text \<open>
  \<open>pending\<close> are the connections waiting to be accepted, \<open>arrivals\<close> every callback GET
  with its time of arrival, \<open>completed\<close> the requests whose handler has run,
  \<open>parent_response\<close> is \<^verbatim>\<open>OAuth2Client.response\<close>, \<open>effects\<close> what the handlers did,
  \<open>guard_httpd\<close> says that \<^verbatim>\<open>HTTPDTimeout.httpd\<close> is not \<^verbatim>\<open>None\<close>, \<open>spawned\<close> counts the
  handler-started threads that have not yet called \<^verbatim>\<open>shutdown\<close>, \<open>waiting\<close> those inside
  \<^verbatim>\<open>shutdown\<close>; \<open>guard_calls\<close> and \<open>worker_calls\<close> count the calls of
  \<^verbatim>\<open>shutdown\<close> by the watchdog and by handler-started threads, \<open>quit_time\<close> is the time
  at which \<^verbatim>\<open>timeout_thread.quit()\<close> ran, \<open>guard_call_time\<close> the time at which the
  watchdog called \<^verbatim>\<open>shutdown\<close>.
\<close>

definition init :: "'j world" where
  "init =
     \<lparr>now = 0, pending = [], arrivals = [], completed = [], parent_response = None,
      effects = [], browser = [], shutdown_request = False, is_shut_down = False,
      mpc = M_Init, gpc = G_NotStarted, guard_httpd = False, target_time = 0, wake_at = 0,
      spawned = 0, waiting = 0, guard_calls = 0, worker_calls = 0, quit_time = None,
      guard_call_time = None\<rparr>"

text \<open>
  The thread that calls \<^verbatim>\<open>auth_code_flow\<close>.
  \<^item> \<open>M_Init\<close>: \<^verbatim>\<open>webbrowser.open\<close>, \<^verbatim>\<open>_create_httpd\<close> (which raises when the port cannot
    be bound), \<^verbatim>\<open>HTTPDTimeout(...).start()\<close>, and the entry of \<^verbatim>\<open>serve_forever\<close>.
  \<^item> \<open>M_Serve\<close>: one round of the loop of \<^verbatim>\<open>serve_forever\<close>: with the flag set the loop
    is left (flag reset, event set); otherwise a waiting connection is accepted.
  \<^item> \<open>M_Handling\<close>: the handler \<^verbatim>\<open>do_GET\<close> of the accepted request runs to its end. The
    clock and the other threads may move between the accept and this step, which is
    where the time of the token exchange goes.
  \<^item> \<open>M_Quit\<close>: \<^verbatim>\<open>timeout_thread.quit()\<close>, then validation and return.

  The log message and the default socket timeout that \<^verbatim>\<open>auth_code_flow\<close> sets around
  \<^verbatim>\<open>serve_forever\<close> do not enter the model, nor does an interrupt from the keyboard.
\<close>

definition auth_code_flow_step :: "'j params \<Rightarrow> 'j world \<Rightarrow> 'j world" where
  "auth_code_flow_step P w =
     (case mpc w of
        M_Init \<Rightarrow>
          if bind_ok P
          then w\<lparr>browser := browser w @ [auth_uri (client P)],
                 gpc := G_Init, guard_httpd := True,
                 is_shut_down := False, mpc := M_Serve\<rparr>
          else w\<lparr>browser := browser w @ [auth_uri (client P)],
                 mpc := M_Done (Inl (ExternalError ''OSError''))\<rparr>
      | M_Serve \<Rightarrow>
          if shutdown_request w
          then w\<lparr>shutdown_request := False, is_shut_down := True, mpc := M_Quit\<rparr>
          else (case pending w of
                  [] \<Rightarrow> w
                | rq # rest \<Rightarrow> w\<lparr>pending := rest, mpc := M_Handling rq\<rparr>)
      | M_Handling rq \<Rightarrow>
          (case do_GET (requests_post P) (response_text P) (client P) rq (parent_response w) of
             (x, p, f) \<Rightarrow>
               w\<lparr>parent_response := p, effects := effects w @ f,
                  completed := completed w @ [rq],
                  spawned := (if x = None then Suc (spawned w) else spawned w),
                  mpc := M_Serve\<rparr>)
      | M_Quit \<Rightarrow>
          w\<lparr>guard_httpd := False, quit_time := Some (now w),
             mpc := M_Done (auth_code_flow_return P (parent_response w))\<rparr>
      | M_Done r \<Rightarrow> w)"

text \<open>
  \<^verbatim>\<open>HTTPDTimeout.run\<close>, one statement per step.
  \<^item> \<open>G_Init\<close>: \<^verbatim>\<open>target_time = time.time() + self.timeout\<close>.
  \<^item> \<open>G_LoopCond\<close>: \<^verbatim>\<open>while time.time() < target_time\<close>, entering \<^verbatim>\<open>time.sleep(1)\<close>.
  \<^item> \<open>G_Sleeping\<close>: the sleep ends no earlier than \<open>wake_at\<close>; then
    \<^verbatim>\<open>if not self.httpd: break\<close>.
  \<^item> \<open>G_FinalCheck\<close>: \<^verbatim>\<open>if self.httpd:\<close>.
  \<^item> \<open>G_Call\<close>: \<^verbatim>\<open>self.httpd.shutdown()\<close> reads \<^verbatim>\<open>self.httpd\<close> once more: on \<^verbatim>\<open>None\<close>
    the attribute lookup raises, otherwise \<^verbatim>\<open>shutdown\<close> sets the flag.
  \<^item> \<open>G_Wait\<close>: inside \<^verbatim>\<open>shutdown\<close>, waiting for the event.
\<close>

definition HTTPDTimeout_run_step :: "'j params \<Rightarrow> 'j world \<Rightarrow> 'j world" where
  "HTTPDTimeout_run_step P w =
     (case gpc w of
        G_NotStarted \<Rightarrow> w
      | G_Init \<Rightarrow> w\<lparr>target_time := now w + httpd_timeout P, gpc := G_LoopCond\<rparr>
      | G_LoopCond \<Rightarrow>
          if now w < target_time w
          then w\<lparr>wake_at := now w + second, gpc := G_Sleeping\<rparr>
          else w\<lparr>gpc := G_FinalCheck\<rparr>
      | G_Sleeping \<Rightarrow>
          if now w < wake_at w then w
          else if \<not> guard_httpd w then w\<lparr>gpc := G_FinalCheck\<rparr>
          else w\<lparr>gpc := G_LoopCond\<rparr>
      | G_FinalCheck \<Rightarrow>
          if guard_httpd w then w\<lparr>gpc := G_Call\<rparr> else w\<lparr>gpc := G_Done\<rparr>
      | G_Call \<Rightarrow>
          if guard_httpd w
          then w\<lparr>shutdown_request := True, guard_calls := Suc (guard_calls w),
                 guard_call_time := Some (now w), gpc := G_Wait\<rparr>
          else w\<lparr>gpc := G_Raised\<rparr>
      | G_Wait \<Rightarrow> if is_shut_down w then w\<lparr>gpc := G_Done\<rparr> else w
      | G_Done \<Rightarrow> w
      | G_Raised \<Rightarrow> w)"

text \<open>
  A thread started by a handler runs \<^verbatim>\<open>server.shutdown\<close>: it sets the flag, then waits
  for the event and ends.
\<close>

definition shutdown_thread_step :: "'j world \<Rightarrow> 'j world" where
  "shutdown_thread_step w =
     (if 0 < spawned w
      then w\<lparr>shutdown_request := True, spawned := spawned w - 1,
             waiting := Suc (waiting w), worker_calls := Suc (worker_calls w)\<rparr>
      else w)"

definition shutdown_thread_exit :: "'j world \<Rightarrow> 'j world" where
  "shutdown_thread_exit w =
     (if 0 < waiting w \<and> is_shut_down w then w\<lparr>waiting := waiting w - 1\<rparr> else w)"

text \<open>
  The environment: the clock advances; a callback GET reaches the listener, which is
  possible once the port is bound.
\<close>

definition advance :: "nat \<Rightarrow> 'j world \<Rightarrow> 'j world" where
  "advance d w = w\<lparr>now := now w + d\<rparr>"

definition arrive :: "'j params \<Rightarrow> http_get \<Rightarrow> 'j world \<Rightarrow> 'j world" where
  "arrive P rq w =
     (if bind_ok P \<and> mpc w \<noteq> M_Init
      then w\<lparr>pending := pending w @ [rq], arrivals := arrivals w @ [(now w, rq)]\<rparr>
      else w)"

datatype action = Advance nat | Arrive http_get | Main | Guard | Worker | WorkerExit

fun step :: "'j params \<Rightarrow> action \<Rightarrow> 'j world \<Rightarrow> 'j world" where
  "step P (Advance d) w = advance d w"
| "step P (Arrive rq) w = arrive P rq w"
| "step P Main w = auth_code_flow_step P w"
| "step P Guard w = HTTPDTimeout_run_step P w"
| "step P Worker w = shutdown_thread_step w"
| "step P WorkerExit w = shutdown_thread_exit w"

fun exec :: "'j params \<Rightarrow> action list \<Rightarrow> 'j world \<Rightarrow> 'j world" where
  "exec P [] w = w"
| "exec P (a # as) w = exec P as (step P a w)"

text \<open>The handlers of a list of requests, run one after the other.\<close>

fun replay ::
  "network \<Rightarrow> (response \<Rightarrow> string) \<Rightarrow> client_info \<Rightarrow> http_get list \<Rightarrow>
     response option \<times> effect list \<Rightarrow>
     response option \<times> effect list" where
  "replay net rtext ci [] st = st"
| "replay net rtext ci (rq # rqs) st =
     (case do_GET net rtext ci rq (fst st) of
        (x, p, f) \<Rightarrow> replay net rtext ci rqs (p, snd st @ f))"

subsection \<open>Invariants of the flow\<close>

text \<open>
  Where the calling thread is: inside the loop of \<^verbatim>\<open>serve_forever\<close>, past it, running a
  handler, returned.
\<close>

definition serving :: "'j main_pc \<Rightarrow> bool" where
  "serving pc = (case pc of M_Serve \<Rightarrow> True | M_Handling rq \<Rightarrow> True | _ \<Rightarrow> False)"

definition left_loop :: "'j main_pc \<Rightarrow> bool" where
  "left_loop pc = (case pc of M_Quit \<Rightarrow> True | M_Done r \<Rightarrow> True | _ \<Rightarrow> False)"

definition thread_starts :: "effect list \<Rightarrow> nat" where
  "thread_starts f = length (filter (\<lambda>e. e = StartThread ServerShutdown) f)"

definition in_flight :: "'j main_pc \<Rightarrow> http_get list" where
  "in_flight pc = (case pc of M_Handling rq \<Rightarrow> [rq] | _ \<Rightarrow> [])"

definition result_of :: "'j main_pc \<Rightarrow> (exn + 'j) option" where
  "result_of pc = (case pc of M_Done r \<Rightarrow> Some r | _ \<Rightarrow> None)"

text \<open>
  Shutdown has been requested and no handler is running, or the loop has been left: from
  here on no request is handled.
\<close>

definition stopped :: "'j world \<Rightarrow> bool" where
  "stopped w \<longleftrightarrow> (shutdown_request w \<and> mpc w = M_Serve) \<or> left_loop (mpc w)"

text \<open>The watchdog: when it may call \<^verbatim>\<open>shutdown\<close>, and how often.\<close>

definition inv_guard :: "'j world \<Rightarrow> bool" where
  "inv_guard w \<longleftrightarrow>
     ((gpc w = G_FinalCheck \<or> gpc w = G_Call) \<and> guard_httpd w \<longrightarrow> target_time w \<le> now w)
     \<and> (0 < guard_calls w \<longrightarrow> target_time w \<le> now w)
     \<and> (gpc w \<noteq> G_Wait \<and> gpc w \<noteq> G_Done \<longrightarrow> guard_calls w = 0)
     \<and> (gpc w = G_Wait \<longrightarrow> guard_calls w = 1)
     \<and> guard_calls w \<le> 1
     \<and> (case quit_time w of
           None \<Rightarrow> True
         | Some t \<Rightarrow> \<not> guard_httpd w \<and> t \<le> now w \<and> (0 < guard_calls w \<longrightarrow> target_time w \<le> t))
     \<and> (mpc w = M_Init \<longrightarrow> gpc w = G_NotStarted \<and> quit_time w = None)
     \<and> (gpc w = G_Raised \<or> gpc w = G_NotStarted \<longrightarrow> \<not> guard_httpd w)"

text \<open>The flag, the event and the threads that wait for it.\<close>

definition inv_sync :: "'j world \<Rightarrow> bool" where
  "inv_sync w \<longleftrightarrow>
     (left_loop (mpc w) \<longrightarrow>
            is_shut_down w \<or> (gpc w = G_NotStarted \<and> spawned w = 0 \<and> waiting w = 0 \<and> mpc w \<noteq> M_Quit))
     \<and> (mpc w = M_Init \<longrightarrow>
            gpc w = G_NotStarted \<and> spawned w = 0 \<and> waiting w = 0 \<and> guard_calls w = 0
            \<and> worker_calls w = 0 \<and> \<not> shutdown_request w)
     \<and> (\<not> is_shut_down w \<and> (gpc w = G_Wait \<or> 0 < waiting w) \<longrightarrow> shutdown_request w)
     \<and> (0 < guard_calls w \<or> 0 < worker_calls w \<longrightarrow> shutdown_request w \<or> left_loop (mpc w))
     \<and> (is_shut_down w \<longrightarrow> left_loop (mpc w))
     \<and> (gpc w = G_NotStarted \<longrightarrow> guard_calls w = 0)
     \<and> (serving (mpc w) \<longrightarrow>
            guard_httpd w \<and> gpc w \<noteq> G_NotStarted \<and> gpc w \<noteq> G_Done \<and> gpc w \<noteq> G_Raised)"

text \<open>
  The handlers ran one after the other on the requests in \<open>completed\<close>; every thread
  that calls \<^verbatim>\<open>shutdown\<close> was started by a handler; requests are served in the order of
  their arrival; the value returned is computed from \<^verbatim>\<open>self.response\<close>.
\<close>

definition inv_replay :: "'j params \<Rightarrow> 'j world \<Rightarrow> bool" where
  "inv_replay P w \<longleftrightarrow>
     (parent_response w, effects w) =
        replay (requests_post P) (response_text P) (client P) (completed w) (None, [])
     \<and> spawned w + worker_calls w = thread_starts (effects w)
     \<and> completed w @ in_flight (mpc w) @ pending w = map snd (arrivals w)
     \<and> (result_of (mpc w) = None \<or>
          result_of (mpc w) =
            Some (if bind_ok P then auth_code_flow_return P (parent_response w)
                  else Inl (ExternalError ''OSError'')))
     \<and> (\<not> bind_ok P \<longrightarrow>
           gpc w = G_NotStarted \<and> \<not> serving (mpc w) \<and> mpc w \<noteq> M_Quit \<and> arrivals w = [])"

text \<open>
  The clock: callbacks arrive in the past, the watchdog calls \<^verbatim>\<open>shutdown\<close> at most once
  and not before its deadline, the deadline and the end of a sleep are never further away
  than the timeout and one second, the request flag is only ever set by a call of
  \<^verbatim>\<open>shutdown\<close>, and the watchdog finds \<^verbatim>\<open>self.httpd\<close> empty only after \<^verbatim>\<open>quit()\<close>.
\<close>

definition time_of :: "nat option \<Rightarrow> nat" where
  "time_of x = (case x of None \<Rightarrow> 0 | Some t \<Rightarrow> t)"

definition inv_clock :: "'j params \<Rightarrow> 'j world \<Rightarrow> bool" where
  "inv_clock P w \<longleftrightarrow>
     list_all (\<lambda>a. fst a \<le> now w) (arrivals w)
     \<and> (guard_call_time w = None \<longrightarrow> guard_calls w = 0)
     \<and> (guard_call_time w \<noteq> None \<longrightarrow>
           time_of (guard_call_time w) \<le> now w
           \<and> target_time w \<le> time_of (guard_call_time w) \<and> guard_calls w = 1)
     \<and> (gpc w \<noteq> G_NotStarted \<and> gpc w \<noteq> G_Init \<longrightarrow> target_time w \<le> now w + httpd_timeout P)
     \<and> (gpc w = G_Sleeping \<longrightarrow> wake_at w \<le> now w + second)
     \<and> (shutdown_request w \<or> (left_loop (mpc w) \<and> gpc w \<noteq> G_NotStarted)
           \<longrightarrow> 0 < guard_calls w + worker_calls w)
     \<and> (bind_ok P \<and> mpc w \<noteq> M_Init \<longrightarrow> gpc w \<noteq> G_NotStarted)
     \<and> (gpc w \<noteq> G_NotStarted \<and> \<not> guard_httpd w \<longrightarrow> quit_time w \<noteq> None)
     \<and> (gpc w = G_Call \<or> gpc w = G_Raised \<longrightarrow>
           target_time w \<le> now w
           \<and> (quit_time w \<noteq> None \<longrightarrow> target_time w \<le> time_of (quit_time w)))"

text \<open>
  Every callback that has arrived did so later than the call of \<^verbatim>\<open>shutdown\<close> by the
  watchdog.
\<close>

definition after_guard_call :: "'j world \<Rightarrow> bool" where
  "after_guard_call w \<longleftrightarrow>
     list_all (\<lambda>a. guard_call_time w \<noteq> None \<and> time_of (guard_call_time w) < fst a)
       (arrivals w)"

text \<open>No request has been handled or is being handled, and none will be without a new arrival.\<close>

definition quiet :: "'j world \<Rightarrow> bool" where
  "quiet w \<longleftrightarrow>
     completed w = [] \<and> in_flight (mpc w) = [] \<and> (arrivals w = [] \<or> stopped w)"

text \<open>
  A fair end of a flow without callbacks: the watchdog runs, the clock passes the timeout
  and one second, the watchdog runs until it has made its call, and the caller leaves the
  loop and returns.
\<close>

definition is_Arrive :: "action \<Rightarrow> bool" where
  "is_Arrive a = (case a of Arrive rq \<Rightarrow> True | _ \<Rightarrow> False)"

definition guard_fire :: "'j params \<Rightarrow> action list" where
  "guard_fire P = [Guard, Advance (httpd_timeout P + second), Guard, Guard, Guard, Guard]"

definition timeout_completion :: "'j params \<Rightarrow> action list" where
  "timeout_completion P = Main # guard_fire P @ [Main, Main]"

subsection \<open>Example inputs\<close>

text \<open>
  A client configuration, token endpoints that answer 200 and 400 (one of them in
  ISO-8859-1), one choice of the functions that are parameters, and a few callback
  requests.
\<close>

definition example_client :: client_info where
  "example_client =
     \<lparr>client_id = ''cid'', client_secret = ''sec'',
      callback_url = ''http://localhost:8080/callback'',
      auth_uri = ''https://login.example/authorize'',
      token_uri = ''https://login.example/token''\<rparr>"

definition example_response :: response where
  "example_response = \<lparr>status_code = 200, content = ''token'', encoding = Some ''utf-8''\<rparr>"



text \<open>
  What \<^verbatim>\<open>response.text\<close> is for a body in ISO-8859-1: every byte is one code point. In
  the UTF-8 encoding of that text a byte below 128 stays, and a byte \<open>b\<close> from 128 on
  becomes the two bytes \<open>192 + b div 64\<close> and \<open>128 + b mod 64\<close>. For a body that is
  UTF-8 the text is represented by the body itself.
\<close>

fun latin1_to_utf8 :: "string \<Rightarrow> string" where
  "latin1_to_utf8 [] = []"
| "latin1_to_utf8 (c # cs) =
     (if (of_char c :: nat) < 128 then [c]
      else [char_of (192 + (of_char c :: nat) div 64), char_of (128 + (of_char c :: nat) mod 64)])
     @ latin1_to_utf8 cs"

definition example_text :: "response \<Rightarrow> string" where
  "example_text r =
     (if encoding r = Some ''ISO-8859-1'' then latin1_to_utf8 (content r) else content r)"


definition example_net :: network where
  "example_net = (\<lambda>rq. Inr example_response)"


definition failing_net :: network where
  "failing_net = (\<lambda>rq. Inl (ExternalError ''ConnectionError''))"

definition example_token :: "(string \<times> string) list" where
  "example_token =
     [(''access_token'', ''T''), (''token_type'', ''bearer''), (''expires_in'', ''3600'')]"

definition example_params :: "nat \<Rightarrow> (string \<times> string) list params" where
  "example_params t =
     \<lparr>client = example_client, httpd_timeout = t, bind_ok = True,
      requests_post = example_net,
      response_text = example_text,
      validate_response =
        (\<lambda>r. case r of
               None \<Rightarrow> Some (ExternalError ''no response'')
             | Some x \<Rightarrow> if status_code x = 200 then None
                         else Some (ExternalError ''not OK'')),
      safe_json_from_response =
        (\<lambda>r. case r of
               None \<Rightarrow> Inl (AttributeError ''raise_for_status'')
             | Some x \<Rightarrow> if status_code x = 200 then Inr example_token
                         else Inl (ExternalError ''HTTPError''))\<rparr>"

definition unreachable_params :: "nat \<Rightarrow> (string \<times> string) list params" where
  "unreachable_params t = (example_params t)\<lparr>requests_post := failing_net\<rparr>"

definition code_get :: http_get where
  "code_get = \<lparr>query = [(''code'', ''abc123'')], pick = 0\<rparr>"

definition two_codes_get :: http_get where
  "two_codes_get = \<lparr>query = [(''code'', ''a''), (''state'', ''s''), (''code'', ''b'')], pick = 1\<rparr>"

definition denied_get :: http_get where
  "denied_get =
     \<lparr>query = [(''error'', ''access_denied''), (''error_description'', ''User declined'')],
      pick = 0\<rparr>"

definition bare_error_get :: http_get where
  "bare_error_get = \<lparr>query = [(''error'', ''access_denied'')], pick = 0\<rparr>"

definition state_only_get :: http_get where
  "state_only_get = \<lparr>query = [(''state'', ''xyz'')], pick = 0\<rparr>"

text \<open>
  Schedules. In \<open>success_schedule\<close> the callback arrives at 0.1 s, is handled, and the
  flow ends. In \<open>race_schedule\<close> (timeout 2 s) the callback arrives at 1.9 s, the token
  exchange takes 0.2 s, and the watchdog wakes at 2.0 s. In \<open>late_callback_schedule\<close>
  (timeout 2.5 s) the watchdog sleeps from 2.0 s to 3.0 s and the callback arrives at
  2.7 s. In \<open>timeout_schedule\<close> (timeout 2 s) nothing arrives until the watchdog has called
  \<^verbatim>\<open>shutdown\<close>, and \<open>after_timeout_schedule\<close> brings a callback at 5 s. In
  \<open>duplicate_schedule\<close> two callbacks are waiting and the loop accepts the second before
  the thread started by the first handler has run. In \<open>late_guard_schedule\<close> the listener
  has stopped after a callback, \<^verbatim>\<open>quit()\<close> has not run yet, and the watchdog has passed
  its last check. In \<open>busy_handler_schedule\<close> (timeout 0) the watchdog calls
  \<^verbatim>\<open>shutdown\<close> while a handler is running. In \<open>retry_schedule\<close> a second callback
  arrives after the handler of the first has ended. In \<open>raise_schedule\<close> (timeout 0)
  \<^verbatim>\<open>quit()\<close> runs between the last check of the watchdog and its call.
\<close>

definition handled_schedule :: "action list" where
  "handled_schedule = [Main, Guard, Guard, Advance 1, Arrive code_get, Main, Main]"

definition success_schedule :: "action list" where
  "success_schedule = handled_schedule @ [Worker, Main, Main]"

definition race_schedule :: "action list" where
  "race_schedule =
     [Main, Guard, Guard, Advance 10, Guard, Guard, Advance 9, Arrive code_get, Main,
      Advance 1, Guard, Guard, Guard, Guard, Advance 1, Main, Worker, Main, Main]"





definition denied_schedule :: "action list" where
  "denied_schedule = [Main, Arrive denied_get, Main, Main]"

definition bare_error_schedule :: "action list" where
  "bare_error_schedule = [Main, Arrive bare_error_get, Main, Main]"

definition duplicate_schedule :: "action list" where
  "duplicate_schedule =
     [Main, Arrive code_get, Arrive code_get, Main, Main, Main, Main,
      Worker, Worker, Main, Main]"


definition retry_schedule :: "action list" where
  "retry_schedule = [Main, Arrive code_get, Main, Main, Arrive code_get, Main, Main]"


definition busy_handler_schedule :: "action list" where
  "busy_handler_schedule = [Main, Guard, Guard, Guard, Arrive code_get, Main, Guard]"

section \<open>Properties\<close>

subsection \<open>Query parsing\<close>

lemma parse_qs_loop_lookup:
  "parse_qs_loop pairs m k =
     (let new = map snd (filter (\<lambda>p. fst p = k) pairs) in
      case m k of
        Some vs \<Rightarrow> Some (vs @ new)
      | None \<Rightarrow> if new = [] then None else Some new)"
  by (induction pairs arbitrary: m) (auto simp: Let_def split: option.splits)

lemma parse_qs_lookup:
  "parse_qs pairs k =
     (let new = map snd (filter (\<lambda>p. fst p = k) pairs) in if new = [] then None else Some new)"
  by (simp add: parse_qs_def parse_qs_loop_lookup)

lemma parse_qs_None_iff: "parse_qs pairs k = None \<longleftrightarrow> k \<notin> fst ` set pairs"
  by (auto simp: parse_qs_lookup Let_def filter_empty_conv image_iff)

lemma parse_qs_Some:
  "k \<in> fst ` set pairs \<Longrightarrow> parse_qs pairs k = Some (map snd (filter (\<lambda>p. fst p = k) pairs))"
  by (auto simp: parse_qs_lookup Let_def filter_empty_conv image_iff)

lemma parse_qs_nonempty: "parse_qs pairs k = Some vs \<Longrightarrow> vs \<noteq> []"
  by (auto simp: parse_qs_lookup Let_def split: if_splits)

subsection \<open>The branches of the handler\<close>

lemma do_GET_page_no_keys:
  assumes "''error'' \<notin> fst ` set (query rq)" "''code'' \<notin> fst ` set (query rq)"
  shows "do_GET_page net rtext ci rq p = Inl (KeyError ''code'', p, [])"
  using assms by (simp add: do_GET_page_def Let_def getitem_def parse_qs_None_iff[symmetric])

lemma do_GET_page_no_description:
  assumes "''error'' \<in> fst ` set (query rq)" "''error_description'' \<notin> fst ` set (query rq)"
  shows "do_GET_page net rtext ci rq p = Inl (KeyError ''error_description'', p, [])"
proof -
  obtain es where es: "parse_qs (query rq) ''error'' = Some es" "es \<noteq> []"
    using assms(1) parse_qs_Some parse_qs_nonempty by blast
  have d: "parse_qs (query rq) ''error_description'' = None"
    using assms(2) by (simp add: parse_qs_None_iff)
  from es d show ?thesis
    by (cases es) (simp_all add: do_GET_page_def Let_def getitem_def item0_def)
qed

lemma do_GET_page_error:
  assumes "parse_qs (query rq) ''error'' = Some (e # es)"
    and "parse_qs (query rq) ''error_description'' = Some (d # ds)"
  shows "do_GET_page net rtext ci rq p = Inr (BAD_REQUEST, error_body e d, p, [])"
  using assms by (simp add: do_GET_page_def Let_def getitem_def item0_def)

lemma do_GET_page_code:
  assumes "parse_qs (query rq) ''error'' = None"
    and "parse_qs (query rq) ''code'' = Some cs"
  shows "do_GET_page net rtext ci rq p =
     (case net (token_request ci (StrList cs)) of
        Inl x \<Rightarrow> Inl (x, p, [Post (token_request ci (StrList cs))])
      | Inr r \<Rightarrow>
          if status_code r \<ge> BAD_REQUEST
          then Inr (status_code r, rtext r, Some r, [Post (token_request ci (StrList cs))])
          else Inr (OK, success_body (random_choice (pick rq) emojis), Some r,
                    [Post (token_request ci (StrList cs))]))"
  using assms
  by (simp add: do_GET_page_def Let_def getitem_def get_access_token_def split: sum.splits)

lemma do_GET_effects_shape:
  "(\<exists>x p f. do_GET net rtext ci rq pr = (Some x, p, f) \<and> StartThread ServerShutdown \<notin> set f)
   \<or> (\<exists>p pre st body. do_GET net rtext ci rq pr =
         (None, p, pre @ [SendResponse st, SendHeader ''Content-Type'' ''text/html; charset=utf-8'',
                          EndHeaders, WfileWrite body, StartThread ServerShutdown])
        \<and> StartThread ServerShutdown \<notin> set pre)"
  by (auto simp: do_GET_def do_GET_page_def get_access_token_def Let_def
           split: sum.splits prod.splits if_splits)

subsection \<open>Schedules and handlers\<close>

lemma exec_append: "exec P (s1 @ s2) w = exec P s2 (exec P s1 w)"
  by (induction s1 arbitrary: w) simp_all

lemma replay_snoc:
  "replay net rtext ci (rqs @ [rq]) st =
     (case do_GET net rtext ci rq (fst (replay net rtext ci rqs st)) of
        (x, p, f) \<Rightarrow> (p, snd (replay net rtext ci rqs st) @ f))"
  by (induction rqs arbitrary: st) (auto split: prod.splits)

lemma do_GET_thread_starts:
  "do_GET net rtext ci rq p = (x, p', f) \<Longrightarrow> thread_starts f = (if x = None then 1 else 0)"
  by (auto simp: do_GET_def do_GET_page_def get_access_token_def thread_starts_def Let_def
           split: sum.splits prod.splits if_splits)

lemma do_GET_posts_le: "do_GET net rtext ci rq p = (x, p', f) \<Longrightarrow> length (posts f) \<le> 1"
  by (auto simp: do_GET_def do_GET_page_def get_access_token_def posts_def Let_def
           split: sum.splits prod.splits if_splits)

lemma thread_starts_append: "thread_starts (f @ g) = thread_starts f + thread_starts g"
  by (simp add: thread_starts_def)

lemma inv_replay_init: "inv_replay P init"
  by (simp add: inv_replay_def init_def thread_starts_def in_flight_def serving_def result_of_def)

lemma inv_replay_main: "inv_replay P w \<Longrightarrow> inv_replay P (auth_code_flow_step P w)"
proof (cases "mpc w")
  case (M_Handling rq)
  assume inv: "inv_replay P w"
  obtain x p f where g: "do_GET (requests_post P) (response_text P) (client P) rq (parent_response w) = (x, p, f)"
    by (cases "do_GET (requests_post P) (response_text P) (client P) rq (parent_response w)") auto
  have r: "replay (requests_post P) (response_text P) (client P) (completed w) (None, []) = (parent_response w, effects w)"
    using inv by (simp add: inv_replay_def)
  from inv g r do_GET_thread_starts[OF g] M_Handling show ?thesis
    by (simp add: inv_replay_def auth_code_flow_step_def replay_snoc thread_starts_append
          in_flight_def serving_def result_of_def)
qed (auto simp: inv_replay_def auth_code_flow_step_def in_flight_def serving_def result_of_def
          split: list.splits)

lemma inv_replay_guard: "inv_replay P w \<Longrightarrow> inv_replay P (HTTPDTimeout_run_step P w)"
  by (cases "gpc w") (auto simp: inv_replay_def HTTPDTimeout_run_step_def)

lemma inv_replay_env:
  "inv_replay P w \<Longrightarrow> inv_replay P (advance d w)"
  "inv_replay P w \<Longrightarrow> inv_replay P (arrive P rq w)"
  "inv_replay P w \<Longrightarrow> inv_replay P (shutdown_thread_step w)"
  "inv_replay P w \<Longrightarrow> inv_replay P (shutdown_thread_exit w)"
  by (auto simp: inv_replay_def advance_def arrive_def shutdown_thread_step_def
        shutdown_thread_exit_def)

lemma inv_replay_step: "inv_replay P w \<Longrightarrow> inv_replay P (step P a w)"
  by (cases a) (simp_all add: inv_replay_main inv_replay_guard inv_replay_env)


subsection \<open>The invariants hold in every run\<close>

lemma serving_not_left: "serving pc \<Longrightarrow> \<not> left_loop pc"
  by (cases pc) (simp_all add: serving_def left_loop_def)

lemma inv_sync_init: "inv_sync init"
  by (simp add: inv_sync_def init_def serving_def left_loop_def)

lemma inv_sync_main: "inv_sync w \<Longrightarrow> inv_sync (auth_code_flow_step P w)"
  by (cases "mpc w")
     (auto simp: inv_sync_def auth_code_flow_step_def serving_def left_loop_def
           split: list.splits prod.splits)

lemma inv_sync_guard: "inv_sync w \<Longrightarrow> inv_sync (HTTPDTimeout_run_step P w)"
  using serving_not_left[of "mpc w"]
  by (cases "gpc w") (auto simp: inv_sync_def HTTPDTimeout_run_step_def)

lemma inv_sync_env:
  "inv_sync w \<Longrightarrow> inv_sync (advance d w)"
  "inv_sync w \<Longrightarrow> inv_sync (arrive P rq w)"
  "inv_sync w \<Longrightarrow> inv_sync (shutdown_thread_step w)"
  "inv_sync w \<Longrightarrow> inv_sync (shutdown_thread_exit w)"
  by (auto simp: inv_sync_def advance_def arrive_def shutdown_thread_step_def
        shutdown_thread_exit_def)

lemma inv_sync_step: "inv_sync w \<Longrightarrow> inv_sync (step P a w)"
  by (cases a) (simp_all add: inv_sync_main inv_sync_guard inv_sync_env)


lemma inv_guard_init: "inv_guard init"
  by (simp add: inv_guard_def init_def)

lemma inv_guard_main: "inv_guard w \<Longrightarrow> inv_guard (auth_code_flow_step P w)"
  by (cases "mpc w")
     (auto simp: inv_guard_def auth_code_flow_step_def split: list.splits prod.splits option.splits)

lemma inv_guard_guard: "inv_guard w \<Longrightarrow> inv_guard (HTTPDTimeout_run_step P w)"
  by (cases "gpc w") (auto simp: inv_guard_def HTTPDTimeout_run_step_def split: option.splits)

lemma inv_guard_env:
  "inv_guard w \<Longrightarrow> inv_guard (advance d w)"
  "inv_guard w \<Longrightarrow> inv_guard (arrive P rq w)"
  "inv_guard w \<Longrightarrow> inv_guard (shutdown_thread_step w)"
  "inv_guard w \<Longrightarrow> inv_guard (shutdown_thread_exit w)"
  by (auto simp: inv_guard_def advance_def arrive_def shutdown_thread_step_def
        shutdown_thread_exit_def split: option.splits)

lemma inv_guard_step: "inv_guard w \<Longrightarrow> inv_guard (step P a w)"
  by (cases a) (simp_all add: inv_guard_main inv_guard_guard inv_guard_env)


lemma inv_guard_exec: "inv_guard w \<Longrightarrow> inv_guard (exec P s w)"
  by (induction s arbitrary: w) (simp_all add: inv_guard_step)

lemma inv_sync_exec: "inv_sync w \<Longrightarrow> inv_sync (exec P s w)"
  by (induction s arbitrary: w) (simp_all add: inv_sync_step)

lemma inv_replay_exec: "inv_replay P w \<Longrightarrow> inv_replay P (exec P s w)"
  by (induction s arbitrary: w) (simp_all add: inv_replay_step)

lemma inv_exec:
  "inv_guard (exec P s init)" "inv_sync (exec P s init)" "inv_replay P (exec P s init)"
  by (simp_all add: inv_guard_exec inv_guard_init inv_sync_exec inv_sync_init
        inv_replay_exec inv_replay_init)

lemma stopped_step:
  "stopped w \<Longrightarrow>
     stopped (step P a w) \<and> effects (step P a w) = effects w
     \<and> completed (step P a w) = completed w
     \<and> parent_response (step P a w) = parent_response w"
proof (cases a)
  case Main
  assume "stopped w"
  then show ?thesis unfolding Main
    by (cases "mpc w") (auto simp: stopped_def left_loop_def auth_code_flow_step_def)
next
  case Guard
  assume "stopped w"
  then show ?thesis unfolding Guard
    by (cases "gpc w") (auto simp: stopped_def HTTPDTimeout_run_step_def)
qed (auto simp: stopped_def advance_def arrive_def shutdown_thread_step_def
          shutdown_thread_exit_def)

lemma stopped_exec:
  "stopped w \<Longrightarrow>
     stopped (exec P s w) \<and> effects (exec P s w) = effects w
     \<and> completed (exec P s w) = completed w
     \<and> parent_response (exec P s w) = parent_response w"
proof (induction s arbitrary: w)
  case Nil
  then show ?case by simp
next
  case (Cons a s)
  from stopped_step[OF Cons.prems, of P a] Cons.IH[of "step P a w"] show ?case by simp
qed



lemma posts_append: "posts (f @ g) = posts f @ posts g"
  by (simp add: posts_def)

lemma replay_posts_le:
  "length (posts (snd (replay net rtext ci rqs st))) \<le> length (posts (snd st)) + length rqs"
proof (induction rqs arbitrary: st)
  case Nil
  show ?case by simp
next
  case (Cons rq rqs)
  obtain x p f where g: "do_GET net rtext ci rq (fst st) = (x, p, f)"
    by (cases "do_GET net rtext ci rq (fst st)") auto
  from Cons[of "(p, snd st @ f)"] do_GET_posts_le[OF g] g show ?case
    by (simp add: posts_append)
qed

subsection \<open>The clock invariant\<close>

lemma time_of_Some: "time_of (Some t) = t"
  by (simp add: time_of_def)

lemma list_all_le_mono:
  "list_all (\<lambda>a. fst a \<le> (n::nat)) xs \<Longrightarrow> list_all (\<lambda>a. fst a \<le> n + d) xs"
  by (induction xs) auto

lemma inv_clock_conjs:
  assumes "inv_clock P w"
  shows "list_all (\<lambda>a. fst a \<le> now w) (arrivals w)"
    and "guard_call_time w = None \<longrightarrow> guard_calls w = 0"
    and "guard_call_time w \<noteq> None \<longrightarrow>
           time_of (guard_call_time w) \<le> now w
           \<and> target_time w \<le> time_of (guard_call_time w) \<and> guard_calls w = 1"
    and "gpc w \<noteq> G_NotStarted \<and> gpc w \<noteq> G_Init \<longrightarrow> target_time w \<le> now w + httpd_timeout P"
    and "gpc w = G_Sleeping \<longrightarrow> wake_at w \<le> now w + second"
    and "shutdown_request w \<or> (left_loop (mpc w) \<and> gpc w \<noteq> G_NotStarted)
           \<longrightarrow> 0 < guard_calls w + worker_calls w"
    and "bind_ok P \<and> mpc w \<noteq> M_Init \<longrightarrow> gpc w \<noteq> G_NotStarted"
    and "gpc w \<noteq> G_NotStarted \<and> \<not> guard_httpd w \<longrightarrow> quit_time w \<noteq> None"
    and "gpc w = G_Call \<or> gpc w = G_Raised \<longrightarrow>
           target_time w \<le> now w
           \<and> (quit_time w \<noteq> None \<longrightarrow> target_time w \<le> time_of (quit_time w))"
  using assms unfolding inv_clock_def by simp_all


lemma inv_clockI:
  assumes "list_all (\<lambda>a. fst a \<le> now w) (arrivals w)"
    and "guard_call_time w = None \<longrightarrow> guard_calls w = 0"
    and "guard_call_time w \<noteq> None \<longrightarrow>
           time_of (guard_call_time w) \<le> now w
           \<and> target_time w \<le> time_of (guard_call_time w) \<and> guard_calls w = 1"
    and "gpc w \<noteq> G_NotStarted \<and> gpc w \<noteq> G_Init \<longrightarrow> target_time w \<le> now w + httpd_timeout P"
    and "gpc w = G_Sleeping \<longrightarrow> wake_at w \<le> now w + second"
    and "shutdown_request w \<or> (left_loop (mpc w) \<and> gpc w \<noteq> G_NotStarted)
           \<longrightarrow> 0 < guard_calls w + worker_calls w"
    and "bind_ok P \<and> mpc w \<noteq> M_Init \<longrightarrow> gpc w \<noteq> G_NotStarted"
    and "gpc w \<noteq> G_NotStarted \<and> \<not> guard_httpd w \<longrightarrow> quit_time w \<noteq> None"
    and "gpc w = G_Call \<or> gpc w = G_Raised \<longrightarrow>
           target_time w \<le> now w
           \<and> (quit_time w \<noteq> None \<longrightarrow> target_time w \<le> time_of (quit_time w))"
  shows "inv_clock P w"
  unfolding inv_clock_def using assms by (intro conjI)

lemma inv_clock_advance:
  assumes "inv_clock P w"
  shows "inv_clock P (advance d w)"
proof (rule inv_clockI)
  note c = inv_clock_conjs[OF assms]
  show "list_all (\<lambda>a. fst a \<le> now (advance d w)) (arrivals (advance d w))"
    using list_all_le_mono[OF c(1), of d] by (auto simp: advance_def)
  show "guard_call_time (advance d w) = None \<longrightarrow> guard_calls (advance d w) = 0"
    using c(2) by (auto simp: advance_def)
  show "guard_call_time (advance d w) \<noteq> None \<longrightarrow>
           time_of (guard_call_time (advance d w)) \<le> now (advance d w)
           \<and> target_time (advance d w) \<le> time_of (guard_call_time (advance d w))
           \<and> guard_calls (advance d w) = 1"
    using c(3) by (auto simp: advance_def)
  show "gpc (advance d w) \<noteq> G_NotStarted \<and> gpc (advance d w) \<noteq> G_Init \<longrightarrow>
          target_time (advance d w) \<le> now (advance d w) + httpd_timeout P"
    using c(4) by (auto simp: advance_def)
  show "gpc (advance d w) = G_Sleeping \<longrightarrow> wake_at (advance d w) \<le> now (advance d w) + second"
    using c(5) by (auto simp: advance_def)
  show "shutdown_request (advance d w)
          \<or> (left_loop (mpc (advance d w)) \<and> gpc (advance d w) \<noteq> G_NotStarted)
           \<longrightarrow> 0 < guard_calls (advance d w) + worker_calls (advance d w)"
    using c(6) by (auto simp: advance_def)
  show "bind_ok P \<and> mpc (advance d w) \<noteq> M_Init \<longrightarrow> gpc (advance d w) \<noteq> G_NotStarted"
    using c(7) by (auto simp: advance_def)
  show "gpc (advance d w) \<noteq> G_NotStarted \<and> \<not> guard_httpd (advance d w)
          \<longrightarrow> quit_time (advance d w) \<noteq> None"
    using c(8) by (auto simp: advance_def)
  show "gpc (advance d w) = G_Call \<or> gpc (advance d w) = G_Raised \<longrightarrow>
           target_time (advance d w) \<le> now (advance d w)
           \<and> (quit_time (advance d w) \<noteq> None
                \<longrightarrow> target_time (advance d w) \<le> time_of (quit_time (advance d w)))"
    using c(9) by (auto simp: advance_def)
qed


lemma inv_clock_init: "inv_clock P init"
  by (simp add: inv_clock_def init_def left_loop_def)

lemma guard_facts:
  assumes "inv_guard w" and "inv_sync w"
  shows "mpc w = M_Init \<longrightarrow> gpc w = G_NotStarted"
    and "(gpc w = G_FinalCheck \<or> gpc w = G_Call) \<and> guard_httpd w \<longrightarrow> target_time w \<le> now w"
    and "gpc w \<noteq> G_Wait \<and> gpc w \<noteq> G_Done \<longrightarrow> guard_calls w = 0"
    and "guard_httpd w \<longrightarrow> quit_time w = None"
  using assms by (auto simp: inv_guard_def inv_sync_def split: option.splits)

lemma inv_clock_main:
  assumes "mpc w = M_Init \<longrightarrow> gpc w = G_NotStarted" and "inv_clock P w"
  shows "inv_clock P (auth_code_flow_step P w)"
  using assms
  by (cases "mpc w")
     (auto simp: inv_clock_def auth_code_flow_step_def left_loop_def time_of_Some
           split: list.splits prod.splits)

lemma inv_clock_guard:
  assumes "(gpc w = G_FinalCheck \<or> gpc w = G_Call) \<and> guard_httpd w \<longrightarrow> target_time w \<le> now w"
    and "gpc w \<noteq> G_Wait \<and> gpc w \<noteq> G_Done \<longrightarrow> guard_calls w = 0"
    and "guard_httpd w \<longrightarrow> quit_time w = None"
    and "inv_clock P w"
  shows "inv_clock P (HTTPDTimeout_run_step P w)"
  using assms
  by (cases "gpc w")
     (auto simp: inv_clock_def HTTPDTimeout_run_step_def time_of_Some)

lemma inv_clock_arrive: "inv_clock P w \<Longrightarrow> inv_clock P (arrive P rq w)"
  unfolding inv_clock_def arrive_def by (cases "bind_ok P \<and> mpc w \<noteq> M_Init") (simp_all, blast)

lemma inv_clock_worker: "inv_clock P w \<Longrightarrow> inv_clock P (shutdown_thread_step w)"
  unfolding inv_clock_def shutdown_thread_step_def by (cases "0 < spawned w") simp_all

lemma inv_clock_worker_exit: "inv_clock P w \<Longrightarrow> inv_clock P (shutdown_thread_exit w)"
  unfolding inv_clock_def shutdown_thread_exit_def
  by (cases "0 < waiting w \<and> is_shut_down w") simp_all

lemma inv_clock_step:
  assumes "inv_guard w" and "inv_sync w" and "inv_clock P w"
  shows "inv_clock P (step P a w)"
proof (cases a)
  case Main
  from guard_facts(1)[OF assms(1,2)] assms(3) show ?thesis
    unfolding Main by (simp add: inv_clock_main)
next
  case Guard
  from guard_facts(2,3,4)[OF assms(1,2)] assms(3) show ?thesis
    unfolding Guard by (simp add: inv_clock_guard)
qed (simp_all add: inv_clock_advance inv_clock_arrive inv_clock_worker inv_clock_worker_exit assms(3))

lemma inv_clock_exec:
  "inv_guard w \<Longrightarrow> inv_sync w \<Longrightarrow> inv_clock P w \<Longrightarrow> inv_clock P (exec P s w)"
  by (induction s arbitrary: w) (simp_all add: inv_clock_step inv_guard_step inv_sync_step)

lemma inv_clock_run: "inv_clock P (exec P s init)"
  by (simp add: inv_clock_exec inv_guard_init inv_sync_init inv_clock_init)


subsection \<open>From the invariants to the flow\<close>

lemma replay_single:
  assumes "inv_replay P w" and "completed w = [rq]"
  shows "do_GET (requests_post P) (response_text P) (client P) rq None = (x, p, f) \<Longrightarrow>
           parent_response w = p \<and> effects w = f"
  using assms by (simp add: inv_replay_def)

lemma returned_value:
  assumes "inv_replay P w" and "mpc w = M_Done res" and "bind_ok P"
  shows "res = auth_code_flow_return P (parent_response w)"
  using assms by (simp add: inv_replay_def result_of_def)

lemma handled_bind_ok:
  assumes "inv_replay P w" and "completed w \<noteq> []"
  shows "bind_ok P"
proof (rule ccontr)
  assume "\<not> bind_ok P"
  with assms(1) have "arrivals w = []" by (simp add: inv_replay_def)
  with assms(1) have "completed w = []" by (simp add: inv_replay_def)
  with assms(2) show False by simp
qed

lemma quit_before_deadline:
  assumes "inv_guard w" and "quit_time w = Some t" and "t < target_time w"
  shows "guard_calls w = 0"
  using assms by (auto simp: inv_guard_def)

text \<open>Once a handler has started the shutdown thread, the flow can run to its end.\<close>

lemma finish_after_handler:
  assumes "inv_sync w" and "inv_replay P w" and "bind_ok P"
    and "0 < thread_starts (effects w)" and "in_flight (mpc w) = []"
  shows "mpc (exec P [Worker, Main, Main] w) = M_Done (auth_code_flow_return P (parent_response w))"
proof -
  from assms(2,4) have sw: "0 < spawned w \<or> 0 < worker_calls w"
    by (auto simp: inv_replay_def)
  show ?thesis
  proof (cases "mpc w")
    case M_Init
    with assms(1) sw show ?thesis by (auto simp: inv_sync_def)
  next
    case M_Serve
    with assms(1) sw have "0 < spawned w \<or> shutdown_request w"
      by (auto simp: inv_sync_def left_loop_def)
    with M_Serve show ?thesis
      by (auto simp: shutdown_thread_step_def auth_code_flow_step_def)
  next
    case (M_Handling rq)
    with assms(5) show ?thesis by (simp add: in_flight_def)
  next
    case M_Quit
    then show ?thesis
      by (auto simp: shutdown_thread_step_def auth_code_flow_step_def)
  next
    case (M_Done res)
    with returned_value[OF assms(2) M_Done assms(3)] show ?thesis
      by (auto simp: shutdown_thread_step_def auth_code_flow_step_def)
  qed
qed


lemma stopped_after_call:
  assumes "inv_sync w" and "0 < guard_calls w \<or> 0 < worker_calls w" and "in_flight (mpc w) = []"
  shows "stopped w"
  using assms by (cases "mpc w") (auto simp: inv_sync_def stopped_def left_loop_def in_flight_def)


subsection \<open>Flows without an early callback\<close>

lemma after_guard_call_cases:
  "after_guard_call w \<longleftrightarrow>
     arrivals w = [] \<or> (guard_call_time w \<noteq> None
        \<and> list_all (\<lambda>a. time_of (guard_call_time w) < fst a) (arrivals w))"
  by (cases "arrivals w") (auto simp: after_guard_call_def list_all_iff)

lemma arrivals_step:
  "arrivals (step P a w) = arrivals w \<or> (\<exists>rq. a = Arrive rq \<and> arrivals (step P a w) = arrivals w @ [(now w, rq)])"
proof (cases a)
  case Main
  show ?thesis unfolding Main
    by (cases "mpc w") (auto simp: auth_code_flow_step_def split: list.splits prod.splits)
next
  case Guard
  show ?thesis unfolding Guard
    by (cases "gpc w") (auto simp: HTTPDTimeout_run_step_def)
qed (auto simp: advance_def arrive_def shutdown_thread_step_def shutdown_thread_exit_def)

lemma guard_call_time_step:
  "guard_call_time (step P a w) = guard_call_time w
   \<or> (a = Guard \<and> gpc w = G_Call \<and> guard_httpd w \<and> guard_call_time (step P a w) = Some (now w))"
proof (cases a)
  case Main
  show ?thesis unfolding Main
    by (cases "mpc w") (auto simp: auth_code_flow_step_def split: list.splits prod.splits)
next
  case Guard
  show ?thesis unfolding Guard
    by (cases "gpc w") (auto simp: HTTPDTimeout_run_step_def)
qed (auto simp: advance_def arrive_def shutdown_thread_step_def shutdown_thread_exit_def)


lemma exec_snoc: "exec P (s @ [a]) w = step P a (exec P s w)"
  by (simp add: exec_append)

lemma after_guard_call_back:
  assumes "after_guard_call (step P a w)" and "inv_clock P w"
  shows "after_guard_call w"
proof (cases "guard_call_time (step P a w) = guard_call_time w")
  case True
  from arrivals_step[of P a w] assms(1) True show ?thesis
    by (auto simp: after_guard_call_def)
next
  case False
  with guard_call_time_step[of P a w]
  have g: "a = Guard" "guard_call_time (step P a w) = Some (now w)" by auto
  with arrivals_step[of P a w] have ar: "arrivals (step P a w) = arrivals w" by auto
  from assms(1) g ar have "list_all (\<lambda>x. now w < fst x) (arrivals w)"
    by (simp add: after_guard_call_def time_of_Some)
  moreover from assms(2) have "list_all (\<lambda>x. fst x \<le> now w) (arrivals w)"
    by (simp add: inv_clock_def)
  ultimately have "arrivals w = []"
    by (cases "arrivals w") auto
  then show ?thesis by (simp add: after_guard_call_def)
qed

lemma stopped_in_flight: "stopped w \<Longrightarrow> in_flight (mpc w) = []"
  by (cases "mpc w") (auto simp: stopped_def left_loop_def in_flight_def)

lemma quiet_step_stopped:
  assumes "quiet w" and "stopped w"
  shows "quiet (step P a w)"
  using stopped_step[OF assms(2), of P a] assms(1) stopped_in_flight[of "step P a w"]
  by (simp add: quiet_def)

lemma quiet_step_main:
  assumes "quiet w" and "arrivals w = []" and "pending w = []"
  shows "quiet (auth_code_flow_step P w)"
  using assms
  by (cases "mpc w")
     (auto simp: quiet_def in_flight_def auth_code_flow_step_def split: prod.splits)

lemma quiet_step_guard:
  assumes "quiet w" and "arrivals w = []"
  shows "quiet (HTTPDTimeout_run_step P w)"
  using assms
  by (cases "gpc w") (auto simp: quiet_def HTTPDTimeout_run_step_def)

lemma quiet_step:
  assumes "quiet w" and "inv_sync w" and "inv_replay P w" and "inv_clock P w"
    and "after_guard_call (step P a w)"
  shows "quiet (step P a w)"
proof (cases "stopped w")
  case True
  with assms(1) show ?thesis by (rule quiet_step_stopped)
next
  case False
  with assms(1) have ar: "arrivals w = []" and fl: "in_flight (mpc w) = []"
    by (simp_all add: quiet_def)
  from assms(3) ar have pe: "pending w = []" by (simp add: inv_replay_def)
  show ?thesis
  proof (cases a)
    case (Advance d)
    with assms(1) ar show ?thesis by (simp add: quiet_def advance_def)
  next
    case (Arrive rq)
    show ?thesis
    proof (cases "bind_ok P \<and> mpc w \<noteq> M_Init")
      case True
      with assms(5) Arrive ar have "guard_call_time w \<noteq> None"
        by (simp add: after_guard_call_def arrive_def)
      with assms(4) have "0 < guard_calls w" by (simp add: inv_clock_def)
      with stopped_after_call[OF assms(2) _ fl] False show ?thesis by simp
    next
      case False
      with assms(1) Arrive show ?thesis by (auto simp: arrive_def)
    qed
  next
    case Main
    with quiet_step_main[OF assms(1) ar pe] show ?thesis by simp
  next
    case Guard
    with quiet_step_guard[OF assms(1) ar] show ?thesis by simp
  next
    case Worker
    with assms(1) ar show ?thesis by (simp add: quiet_def shutdown_thread_step_def)
  next
    case WorkerExit
    with assms(1) ar show ?thesis by (simp add: quiet_def shutdown_thread_exit_def)
  qed
qed

lemma quiet_run: "after_guard_call (exec P s init) \<Longrightarrow> quiet (exec P s init)"
proof (induction s rule: rev_induct)
  case Nil
  show ?case by (simp add: quiet_def init_def in_flight_def)
next
  case (snoc a s)
  let ?w = "exec P s init"
  from snoc.prems have a: "after_guard_call (step P a ?w)" by (simp add: exec_snoc)
  from after_guard_call_back[OF a inv_clock_run] snoc.IH have q: "quiet ?w" by simp
  from quiet_step[OF q inv_exec(2) inv_exec(3) inv_clock_run a] show ?case
    by (simp add: exec_snoc)
qed

lemma quiet_effects:
  assumes "quiet w" and "inv_replay P w"
  shows "effects w = [] \<and> parent_response w = None \<and> spawned w = 0 \<and> worker_calls w = 0"
proof -
  from assms have "(parent_response w, effects w) = (None, [])"
    by (simp add: quiet_def inv_replay_def)
  then have e: "effects w = []" "parent_response w = None" by simp_all
  from assms(2) e have "spawned w + worker_calls w = 0"
    by (simp add: inv_replay_def thread_starts_def)
  with e show ?thesis by simp
qed


section \<open>The claims\<close>

subsection \<open>The token exchange\<close>

text \<open>
  C6. For every configuration and code, \<^verbatim>\<open>get_access_token\<close> issues exactly one POST,
  to the token URI of the configuration, with the header
  \<^verbatim>\<open>Content-Type: application/x-www-form-urlencoded\<close> and a form body that has exactly the
  keys \<^verbatim>\<open>client_id\<close>, \<^verbatim>\<open>client_secret\<close>, \<^verbatim>\<open>grant_type\<close> (with the value
  \<^verbatim>\<open>authorization_code\<close>), \<^verbatim>\<open>redirect_uri\<close> and \<^verbatim>\<open>code\<close>; what it returns is what
  \<^verbatim>\<open>requests.post\<close> gave, whatever the status code.
\<close>

theorem get_access_token_single_post:
  "snd (get_access_token net ci auth_code) = [Post (token_request ci auth_code)]
   \<and> fst (get_access_token net ci auth_code) = net (token_request ci auth_code)
   \<and> url (token_request ci auth_code) = token_uri ci
   \<and> headers (token_request ci auth_code) =
       [(''Content-Type'', ''application/x-www-form-urlencoded'')]
   \<and> data (token_request ci auth_code) =
       [(''client_id'', Str (client_id ci)),
        (''client_secret'', Str (client_secret ci)),
        (''grant_type'', Str ''authorization_code''),
        (''redirect_uri'', Str (callback_url ci)),
        (''code'', auth_code)]"
  by (simp add: get_access_token_def token_request_def token_data_def HTTP_HEADERS_def Let_def)

subsection \<open>The handler, request by request\<close>

text \<open>
  C9. A callback GET whose query has neither an \<^verbatim>\<open>error\<close> nor a \<^verbatim>\<open>code\<close> parameter makes
  the handler raise \<^verbatim>\<open>KeyError('code')\<close>, and one that has \<^verbatim>\<open>error\<close> but no
  \<^verbatim>\<open>error_description\<close> makes it raise \<^verbatim>\<open>KeyError('error_description')\<close>; in both cases
  the exception leaves \<^verbatim>\<open>do_GET\<close> before anything is sent and \<^verbatim>\<open>parent.response\<close> is
  as it was.
\<close>

theorem do_GET_KeyError:
  "(''error'' \<notin> fst ` set (query rq) \<and> ''code'' \<notin> fst ` set (query rq)
      \<longrightarrow> do_GET net rtext ci rq p = (Some (KeyError ''code''), p, []))
   \<and> (''error'' \<in> fst ` set (query rq) \<and> ''error_description'' \<notin> fst ` set (query rq)
      \<longrightarrow> do_GET net rtext ci rq p = (Some (KeyError ''error_description''), p, []))"
  by (simp add: do_GET_def do_GET_page_no_keys do_GET_page_no_description)

theorem do_GET_KeyError_witness:
  "''error'' \<notin> fst ` set (query state_only_get) \<and> ''code'' \<notin> fst ` set (query state_only_get)
   \<and> do_GET example_net example_text example_client state_only_get None = (Some (KeyError ''code''), None, [])
   \<and> ''error'' \<in> fst ` set (query bare_error_get)
   \<and> ''error_description'' \<notin> fst ` set (query bare_error_get)
   \<and> do_GET example_net example_text example_client bare_error_get None =
       (Some (KeyError ''error_description''), None, [])"
proof -
  have a: "''error'' \<notin> fst ` set (query state_only_get) \<and> ''code'' \<notin> fst ` set (query state_only_get)"
    by (simp add: state_only_get_def)
  have b: "''error'' \<in> fst ` set (query bare_error_get)
           \<and> ''error_description'' \<notin> fst ` set (query bare_error_get)"
    by (simp add: bare_error_get_def)
  from a b do_GET_KeyError[where rq = state_only_get and net = example_net and rtext = example_text
      and ci = example_client and p = None]
    do_GET_KeyError[where rq = bare_error_get and net = example_net and rtext = example_text
      and ci = example_client and p = None]
  show ?thesis by blast
qed

text \<open>
  C10. On the success branch (no \<^verbatim>\<open>error\<close> parameter, at least one \<^verbatim>\<open>code\<close> value) the
  handler hands the whole list that \<^verbatim>\<open>parse_qs\<close> made of the \<^verbatim>\<open>code\<close> values, in the
  order of the query, to \<^verbatim>\<open>get_access_token\<close>: the \<^verbatim>\<open>code\<close> field of the one POST is that
  list, not its first element.
\<close>

theorem do_GET_passes_code_list:
  assumes "''error'' \<notin> fst ` set (query rq)" and "''code'' \<in> fst ` set (query rq)"
  shows "parse_qs (query rq) ''code'' = Some (map snd (filter (\<lambda>kv. fst kv = ''code'') (query rq)))
    \<and> posts (snd (snd (do_GET net rtext ci rq p))) =
        [token_request ci (StrList (map snd (filter (\<lambda>kv. fst kv = ''code'') (query rq))))]
    \<and> map_of (data (token_request ci
          (StrList (map snd (filter (\<lambda>kv. fst kv = ''code'') (query rq)))))) ''code'' =
        Some (StrList (map snd (filter (\<lambda>kv. fst kv = ''code'') (query rq))))"
proof -
  let ?cs = "map snd (filter (\<lambda>kv. fst kv = ''code'') (query rq))"
  have e: "parse_qs (query rq) ''error'' = None"
    using assms(1) by (simp add: parse_qs_None_iff)
  have c: "parse_qs (query rq) ''code'' = Some ?cs"
    using assms(2) by (rule parse_qs_Some)
  have "posts (snd (snd (do_GET net rtext ci rq p))) = [token_request ci (StrList ?cs)]"
    by (simp add: do_GET_def do_GET_page_code[OF e c] posts_def split: sum.splits)
  moreover have "map_of (data (token_request ci (StrList ?cs))) ''code'' = Some (StrList ?cs)"
    by (simp add: token_request_def token_data_def)
  ultimately show ?thesis using c by simp
qed

theorem do_GET_passes_code_list_witness:
  "''error'' \<notin> fst ` set (query two_codes_get) \<and> ''code'' \<in> fst ` set (query two_codes_get)
   \<and> posts (snd (snd (do_GET example_net example_text example_client two_codes_get None))) =
        [token_request example_client (StrList [''a'', ''b''])]
   \<and> map_of (data (token_request example_client (StrList [''a'', ''b'']))) ''code'' =
        Some (StrList [''a'', ''b''])"
proof -
  have a: "''error'' \<notin> fst ` set (query two_codes_get)"
    and b: "''code'' \<in> fst ` set (query two_codes_get)"
    by (simp_all add: two_codes_get_def)
  have c: "map snd (filter (\<lambda>kv. fst kv = ''code'') (query two_codes_get)) = [''a'', ''b'']"
    by (simp add: two_codes_get_def)
  from do_GET_passes_code_list[OF a b, where net = example_net and rtext = example_text
      and ci = example_client and p = None] a b
  show ?thesis unfolding c by simp
qed




subsection \<open>The flow\<close>

text \<open>
  C1, as amended. In every run of the flow in which the listener has handled exactly
  one callback GET, that GET has a \<^verbatim>\<open>code\<close> and no \<^verbatim>\<open>error\<close> parameter, the token
  endpoint answers the exchange with status 200 and \<^verbatim>\<open>validate_response\<close> accepts the
  answer: \<^verbatim>\<open>parent.response\<close> is that answer, the handler made the one POST and sent one
  page, with status 200 and the success body, before starting the shutdown thread; if
  \<^verbatim>\<open>auth_code_flow\<close> has returned, it returned \<^verbatim>\<open>safe_json_from_response\<close> of the answer;
  if \<^verbatim>\<open>quit()\<close> ran before the deadline, the watchdog has not called \<^verbatim>\<open>shutdown\<close>; and
  unless a further handler is running, the flow returns that value as soon as the
  shutdown thread and then the caller run (schedule Worker, Main, Main).
\<close>

theorem auth_code_flow_success:
  assumes "completed (exec P s init) = [rq]"
    and "parse_qs (query rq) ''error'' = None"
    and "parse_qs (query rq) ''code'' = Some cs"
    and "requests_post P (token_request (client P) (StrList cs)) = Inr r"
    and "status_code r = 200"
    and "validate_response P (Some r) = None"
  shows "parent_response (exec P s init) = Some r
    \<and> effects (exec P s init) =
        [Post (token_request (client P) (StrList cs)),
         SendResponse 200,
         SendHeader ''Content-Type'' ''text/html; charset=utf-8'',
         EndHeaders,
         WfileWrite (success_body (random_choice (pick rq) emojis)),
         StartThread ServerShutdown]
    \<and> (\<forall>res. mpc (exec P s init) = M_Done res \<longrightarrow> res = safe_json_from_response P (Some r))
    \<and> (\<forall>t. quit_time (exec P s init) = Some t \<and> t < target_time (exec P s init)
          \<longrightarrow> guard_calls (exec P s init) = 0)
    \<and> (in_flight (mpc (exec P s init)) = []
          \<longrightarrow> mpc (exec P [Worker, Main, Main] (exec P s init)) =
              M_Done (safe_json_from_response P (Some r)))"
proof -
  let ?w = "exec P s init"
  let ?f = "[Post (token_request (client P) (StrList cs)),
         SendResponse 200,
         SendHeader ''Content-Type'' ''text/html; charset=utf-8'',
         EndHeaders,
         WfileWrite (success_body (random_choice (pick rq) emojis)),
         StartThread ServerShutdown]"
  note inv = inv_exec[of P s]
  have g: "do_GET (requests_post P) (response_text P) (client P) rq None = (None, Some r, ?f)"
    using assms(4,5)
    by (simp add: do_GET_def do_GET_page_code[OF assms(2,3)] BAD_REQUEST_def OK_def)
  from replay_single[OF inv(3) assms(1) g]
  have pr: "parent_response ?w = Some r" and fx: "effects ?w = ?f" by simp_all
  have b: "bind_ok P" using handled_bind_ok[OF inv(3)] assms(1) by simp
  have ret: "auth_code_flow_return P (Some r) = safe_json_from_response P (Some r)"
    using assms(6) by (simp add: auth_code_flow_return_def)
  have res: "\<forall>res. mpc ?w = M_Done res \<longrightarrow> res = safe_json_from_response P (Some r)"
    using returned_value[OF inv(3) _ b] pr ret by simp
  have q: "\<forall>t. quit_time ?w = Some t \<and> t < target_time ?w \<longrightarrow> guard_calls ?w = 0"
    using quit_before_deadline[OF inv(1)] by blast
  have ts: "0 < thread_starts (effects ?w)"
    by (simp add: fx thread_starts_def)
  have fin: "in_flight (mpc ?w) = [] \<longrightarrow>
      mpc (exec P [Worker, Main, Main] ?w) = M_Done (safe_json_from_response P (Some r))"
    using finish_after_handler[OF inv(2) inv(3) b ts] pr ret by simp
  from pr fx res q fin show ?thesis by blast
qed

theorem auth_code_flow_success_witness:
  "completed (exec (example_params 30) success_schedule init) = [code_get]
   \<and> parse_qs (query code_get) ''error'' = None
   \<and> parse_qs (query code_get) ''code'' = Some [''abc123'']
   \<and> requests_post (example_params 30)
        (token_request (client (example_params 30)) (StrList [''abc123''])) = Inr example_response
   \<and> status_code example_response = 200
   \<and> validate_response (example_params 30) (Some example_response) = None
   \<and> parent_response (exec (example_params 30) success_schedule init) = Some example_response
   \<and> statuses (effects (exec (example_params 30) success_schedule init)) = [200]
   \<and> mpc (exec (example_params 30) success_schedule init) = M_Done (Inr example_token)
   \<and> quit_time (exec (example_params 30) success_schedule init) = Some 1
   \<and> 1 < target_time (exec (example_params 30) success_schedule init)
   \<and> guard_calls (exec (example_params 30) success_schedule init) = 0
   \<and> in_flight (mpc (exec (example_params 30) success_schedule init)) = []
   \<and> mpc (exec (example_params 30) [Worker, Main, Main]
          (exec (example_params 30) success_schedule init)) = M_Done (Inr example_token)"
proof -
  let ?P = "example_params 30"
  let ?w = "exec ?P success_schedule init"
  have h1: "completed ?w = [code_get]" by code_simp
  have h2: "parse_qs (query code_get) ''error'' = None" by code_simp
  have h3: "parse_qs (query code_get) ''code'' = Some [''abc123'']" by code_simp
  have h4: "requests_post ?P (token_request (client ?P) (StrList [''abc123''])) = Inr example_response"
    by (simp add: example_params_def example_net_def)
  have h5: "status_code example_response = 200" by (simp add: example_response_def)
  have h6: "validate_response ?P (Some example_response) = None"
    by (simp add: example_params_def example_response_def)
  have e: "quit_time ?w = Some 1 \<and> 1 < target_time ?w \<and> in_flight (mpc ?w) = []" by code_simp
  have m: "mpc ?w = M_Done (Inr example_token)" by code_simp
  have j: "safe_json_from_response ?P (Some example_response) = Inr example_token"
    by (simp add: example_params_def example_response_def)
  from auth_code_flow_success[where P = "?P" and s = success_schedule, OF h1 h2 h3 h4 h5 h6] e
  have "parent_response ?w = Some example_response"
    and "statuses (effects ?w) = [200]"
    and "guard_calls ?w = 0"
    and "mpc (exec ?P [Worker, Main, Main] ?w) = M_Done (Inr example_token)"
    by (simp_all add: statuses_def j)
  with h1 h2 h3 h4 h5 h6 e m show ?thesis by simp
qed


text \<open>
  The claim C1 as stated fails: with a timeout of 2 s, the one callback arrives at 1.9 s
  with a code, the exchange answers 200 after 0.2 s, the flow returns the payload and the
  page is 200, but the watchdog, waking at 2.0 s while the handler waits for the
  exchange, has called \<^verbatim>\<open>shutdown\<close>.
\<close>

theorem auth_code_flow_guard_race:
  "arrivals (exec (example_params 20) race_schedule init) = [(19, code_get)]
   \<and> target_time (exec (example_params 20) race_schedule init) = 20
   \<and> parse_qs (query code_get) ''code'' = Some [''abc123'']
   \<and> requests_post (example_params 20)
        (token_request (client (example_params 20)) (StrList [''abc123''])) = Inr example_response
   \<and> status_code example_response = 200
   \<and> mpc (exec (example_params 20) race_schedule init) = M_Done (Inr example_token)
   \<and> statuses (effects (exec (example_params 20) race_schedule init)) = [200]
   \<and> guard_calls (exec (example_params 20) race_schedule init) = 1"
  by code_simp




text \<open>
  C3, as amended. In every run of the flow in which the listener has handled exactly
  one callback GET, and that GET has an \<^verbatim>\<open>error\<close> and an \<^verbatim>\<open>error_description\<close> parameter
  with first values \<open>e\<close> and \<open>d\<close>: the handler made no POST and sent one page, with
  status 400 and the body \<^verbatim>\<open>error: e\<close>, newline, \<^verbatim>\<open>error description: d\<close>, before starting
  the shutdown thread; \<^verbatim>\<open>parent.response\<close> is a response made of that status and body;
  a flow that has returned has returned what \<^verbatim>\<open>validate_response\<close> and
  \<^verbatim>\<open>safe_json_from_response\<close> make of that response; and unless a further handler is
  running, the flow returns that value after the schedule Worker, Main, Main.
\<close>

theorem auth_code_flow_denied:
  assumes "completed (exec P s init) = [rq]"
    and "parse_qs (query rq) ''error'' = Some (e # es)"
    and "parse_qs (query rq) ''error_description'' = Some (d # ds)"
  shows "effects (exec P s init) =
        [SendResponse 400,
         SendHeader ''Content-Type'' ''text/html; charset=utf-8'',
         EndHeaders,
         WfileWrite (''error: '' @ e @ [CHR 0x0A] @ ''error description: '' @ d),
         StartThread ServerShutdown]
    \<and> parent_response (exec P s init) =
        Some \<lparr>status_code = 400,
              content = ''error: '' @ e @ [CHR 0x0A] @ ''error description: '' @ d,
              encoding = None\<rparr>
    \<and> (\<forall>res. mpc (exec P s init) = M_Done res \<longrightarrow>
          res = auth_code_flow_return P (parent_response (exec P s init)))
    \<and> (in_flight (mpc (exec P s init)) = []
          \<longrightarrow> mpc (exec P [Worker, Main, Main] (exec P s init)) =
              M_Done (auth_code_flow_return P (parent_response (exec P s init))))"
proof -
  let ?w = "exec P s init"
  let ?b = "''error: '' @ e @ [CHR 0x0A] @ ''error description: '' @ d"
  let ?f = "[SendResponse 400,
         SendHeader ''Content-Type'' ''text/html; charset=utf-8'',
         EndHeaders, WfileWrite ?b, StartThread ServerShutdown]"
  note inv = inv_exec[of P s]
  have g: "do_GET (requests_post P) (response_text P) (client P) rq None =
      (None, Some \<lparr>status_code = 400, content = ?b, encoding = None\<rparr>, ?f)"
    by (simp add: do_GET_def do_GET_page_error[OF assms(2,3)] BAD_REQUEST_def error_body_def)
  from replay_single[OF inv(3) assms(1) g]
  have pr: "parent_response ?w = Some \<lparr>status_code = 400, content = ?b, encoding = None\<rparr>"
    and fx: "effects ?w = ?f" by simp_all
  have b: "bind_ok P" using handled_bind_ok[OF inv(3)] assms(1) by simp
  have res: "\<forall>res. mpc ?w = M_Done res \<longrightarrow> res = auth_code_flow_return P (parent_response ?w)"
    using returned_value[OF inv(3) _ b] by simp
  have ts: "0 < thread_starts (effects ?w)"
    by (simp add: fx thread_starts_def)
  have fin: "in_flight (mpc ?w) = [] \<longrightarrow>
      mpc (exec P [Worker, Main, Main] ?w) = M_Done (auth_code_flow_return P (parent_response ?w))"
    using finish_after_handler[OF inv(2) inv(3) b ts] by simp
  from pr fx res fin show ?thesis by simp
qed


theorem auth_code_flow_denied_witness:
  "completed (exec (example_params 30) denied_schedule init) = [denied_get]
   \<and> parse_qs (query denied_get) ''error'' = Some [''access_denied'']
   \<and> parse_qs (query denied_get) ''error_description'' = Some [''User declined'']
   \<and> statuses (effects (exec (example_params 30) denied_schedule init)) = [400]
   \<and> bodies (effects (exec (example_params 30) denied_schedule init)) =
        [''error: access_denied'' @ [CHR 0x0A] @ ''error description: User declined'']
   \<and> posts (effects (exec (example_params 30) denied_schedule init)) = []
   \<and> parent_response (exec (example_params 30) denied_schedule init) =
        Some \<lparr>status_code = 400,
              content = ''error: access_denied'' @ [CHR 0x0A] @ ''error description: User declined'',
              encoding = None\<rparr>
   \<and> in_flight (mpc (exec (example_params 30) denied_schedule init)) = []
   \<and> mpc (exec (example_params 30) [Worker, Main, Main]
          (exec (example_params 30) denied_schedule init)) = M_Done (Inl (ExternalError ''not OK''))"
proof -
  let ?P = "example_params 30"
  let ?w = "exec ?P denied_schedule init"
  have h1: "completed ?w = [denied_get]" by code_simp
  have h2: "parse_qs (query denied_get) ''error'' = Some [''access_denied'']" by code_simp
  have h3: "parse_qs (query denied_get) ''error_description'' = Some [''User declined'']"
    by code_simp
  have e: "in_flight (mpc ?w) = []" by code_simp
  from auth_code_flow_denied[where P = "?P" and s = denied_schedule, OF h1 h2 h3] e
  have fx: "effects ?w =
        [SendResponse 400,
         SendHeader ''Content-Type'' ''text/html; charset=utf-8'',
         EndHeaders,
         WfileWrite (''error: '' @ ''access_denied'' @ [CHR 0x0A] @ ''error description: '' @ ''User declined''),
         StartThread ServerShutdown]"
    and pr: "parent_response ?w =
        Some \<lparr>status_code = 400,
              content = ''error: '' @ ''access_denied'' @ [CHR 0x0A] @ ''error description: '' @ ''User declined'',
              encoding = None\<rparr>"
    and fin: "mpc (exec ?P [Worker, Main, Main] ?w) =
        M_Done (auth_code_flow_return ?P (parent_response ?w))"
    by blast+
  have r: "auth_code_flow_return ?P (parent_response ?w) = Inl (ExternalError ''not OK'')"
    unfolding pr by (simp add: auth_code_flow_return_def example_params_def)
  from h1 h2 h3 e fx pr fin[unfolded r] show ?thesis
    by (simp add: statuses_def bodies_def posts_def)
qed

text \<open>
  The claim C3 as stated fails: a callback with \<^verbatim>\<open>error\<close> and no \<^verbatim>\<open>error_description\<close> is
  handled without any page being sent, \<^verbatim>\<open>parent.response\<close> stays unset, no shutdown
  thread is started and the listener goes on serving.
\<close>

theorem bare_error_callback_unanswered:
  "completed (exec (example_params 30) bare_error_schedule init) = [bare_error_get]
   \<and> parse_qs (query bare_error_get) ''error'' = Some [''access_denied'']
   \<and> effects (exec (example_params 30) bare_error_schedule init) = []
   \<and> parent_response (exec (example_params 30) bare_error_schedule init) = None
   \<and> mpc (exec (example_params 30) bare_error_schedule init) = M_Serve
   \<and> spawned (exec (example_params 30) bare_error_schedule init) = 0
   \<and> \<not> shutdown_request (exec (example_params 30) bare_error_schedule init)"
  by code_simp

text \<open>
  C4, as amended. In every run of the flow, \<^verbatim>\<open>get_access_token\<close> has been called at most
  once per callback GET that the listener has handled, and the listener has handled no
  more GETs than have arrived; once shutdown has been requested and no handler is
  running, or the loop has been left, no later step handles a request or adds a call.
\<close>

theorem exchange_per_handled_request:
  "length (posts (effects (exec P s init))) \<le> length (completed (exec P s init))
   \<and> length (completed (exec P s init)) \<le> length (arrivals (exec P s init))
   \<and> (stopped (exec P s init) \<longrightarrow>
        (\<forall>s'. posts (effects (exec P s' (exec P s init))) = posts (effects (exec P s init))
              \<and> completed (exec P s' (exec P s init)) = completed (exec P s init)))"
proof -
  let ?w = "exec P s init"
  note inv = inv_exec[of P s]
  have r: "replay (requests_post P) (response_text P) (client P) (completed ?w) (None, []) =
        (parent_response ?w, effects ?w)"
    using inv(3) by (simp add: inv_replay_def)
  from replay_posts_le[of "requests_post P" "response_text P" "client P" "completed ?w" "(None, [])"]
  have a: "length (posts (effects ?w)) \<le> length (completed ?w)"
    by (simp add: r posts_def)
  have "length (completed ?w @ in_flight (mpc ?w) @ pending ?w) = length (arrivals ?w)"
    using inv(3) by (simp add: inv_replay_def)
  then have b: "length (completed ?w) \<le> length (arrivals ?w)" by simp
  from a b stopped_exec[of ?w P] show ?thesis by simp
qed

theorem exchange_per_handled_request_witness:
  "stopped (exec (example_params 30) duplicate_schedule init)
   \<and> length (posts (effects (exec (example_params 30) duplicate_schedule init)))
       \<le> length (completed (exec (example_params 30) duplicate_schedule init))
   \<and> posts (effects (exec (example_params 30) [Arrive code_get, Main, Main]
        (exec (example_params 30) duplicate_schedule init))) =
      posts (effects (exec (example_params 30) duplicate_schedule init))"
proof -
  let ?P = "example_params 30"
  have h: "stopped (exec ?P duplicate_schedule init)" by code_simp
  from exchange_per_handled_request[of ?P duplicate_schedule] h
  show ?thesis by blast
qed


text \<open>
  The claim C4 as stated fails, in two ways. When two callbacks are waiting and the loop
  looks for the flag before the thread started by the first handler has set it, both are
  handled and both are exchanged. And when the exchange gets no response, the exception
  leaves the handler, the listener goes on serving, and a second callback is exchanged
  again.
\<close>

theorem duplicate_callback_exchanged_twice:
  "arrivals (exec (example_params 30) duplicate_schedule init) = [(0, code_get), (0, code_get)]
   \<and> posts (effects (exec (example_params 30) duplicate_schedule init)) =
        [token_request example_client (StrList [''abc123'']),
         token_request example_client (StrList [''abc123''])]
   \<and> mpc (exec (example_params 30) duplicate_schedule init) = M_Done (Inr example_token)
   \<and> arrivals (exec (unreachable_params 30) retry_schedule init) = [(0, code_get), (0, code_get)]
   \<and> posts (effects (exec (unreachable_params 30) retry_schedule init)) =
        [token_request example_client (StrList [''abc123'']),
         token_request example_client (StrList [''abc123''])]"
  by code_simp




text \<open>
  C8. Whenever the handler starts the thread that calls \<^verbatim>\<open>server.shutdown\<close>, that is its
  last action, and the status line, the header, the end of the headers and the body of
  the page have been written just before it (the output stream of the handler is
  unbuffered, so written is sent). The call of \<^verbatim>\<open>shutdown\<close> itself is never made by the
  thread that runs the handler: no step of that thread sets the request flag or counts
  as a call of \<^verbatim>\<open>shutdown\<close>, and in every run each call made by a handler-started thread
  belongs to a thread start that a handler has made.
\<close>

theorem do_GET_shutdown_deferred:
  "(StartThread ServerShutdown \<in> set (snd (snd (do_GET net rtext ci rq pr))) \<longrightarrow>
      (\<exists>pre st body.
         snd (snd (do_GET net rtext ci rq pr)) =
           pre @ [SendResponse st, SendHeader ''Content-Type'' ''text/html; charset=utf-8'',
                  EndHeaders, WfileWrite body, StartThread ServerShutdown]
         \<and> StartThread ServerShutdown \<notin> set pre))
   \<and> (shutdown_request (step P Main w) \<longrightarrow> shutdown_request w)
   \<and> worker_calls (step P Main w) = worker_calls w
   \<and> worker_calls (exec P s init) \<le> thread_starts (effects (exec P s init))"
proof -
  have a: "StartThread ServerShutdown \<in> set (snd (snd (do_GET net rtext ci rq pr))) \<longrightarrow>
      (\<exists>pre st body.
         snd (snd (do_GET net rtext ci rq pr)) =
           pre @ [SendResponse st, SendHeader ''Content-Type'' ''text/html; charset=utf-8'',
                  EndHeaders, WfileWrite body, StartThread ServerShutdown]
         \<and> StartThread ServerShutdown \<notin> set pre)"
    using do_GET_effects_shape[of net rtext ci rq pr] by auto
  have b: "(shutdown_request (step P Main w) \<longrightarrow> shutdown_request w)
      \<and> worker_calls (step P Main w) = worker_calls w"
    by (cases "mpc w")
       (auto simp: auth_code_flow_step_def split: list.splits prod.splits)
  have c: "worker_calls (exec P s init) \<le> thread_starts (effects (exec P s init))"
    using inv_exec(3)[of P s] by (simp add: inv_replay_def)
  from a b c show ?thesis by blast
qed


theorem do_GET_shutdown_deferred_witness:
  "StartThread ServerShutdown \<in> set (snd (snd (do_GET example_net example_text example_client code_get None)))
   \<and> (\<exists>pre st body.
         snd (snd (do_GET example_net example_text example_client code_get None)) =
           pre @ [SendResponse st, SendHeader ''Content-Type'' ''text/html; charset=utf-8'',
                  EndHeaders, WfileWrite body, StartThread ServerShutdown]
         \<and> StartThread ServerShutdown \<notin> set pre)
   \<and> shutdown_request (step (example_params 0) Main
        (exec (example_params 0) busy_handler_schedule init))
   \<and> shutdown_request (exec (example_params 0) busy_handler_schedule init)"
proof -
  let ?P = "example_params 0"
  let ?w = "exec ?P busy_handler_schedule init"
  have h1: "StartThread ServerShutdown
      \<in> set (snd (snd (do_GET example_net example_text example_client code_get None)))"
    by code_simp
  have h2: "shutdown_request (step ?P Main ?w)" by code_simp
  from do_GET_shutdown_deferred[where net = example_net and rtext = example_text
      and ci = example_client and rq = code_get and pr = None and P = ?P and w = ?w and s = "[]"] h1 h2
  show ?thesis by blast
qed


end
